theory Spec2Isabelle
  imports Main "HOL-Library.Word"
begin

section \<open>The value model of value.go\<close>

subsection \<open>Type tags\<close>

text \<open>
  \<^verbatim>\<open>type LValueType int\<close> with its \<^verbatim>\<open>iota\<close> constants. The constant block declares ten
  tags, \<^verbatim>\<open>LTNil\<close> (0) up to \<^verbatim>\<open>LTObject\<close> (9), and \<^verbatim>\<open>lValueNames\<close> is a \<^verbatim>\<open>[10]string\<close>.
\<close>

datatype LValueType =
    LTNil | LTBool | LTNumber | LTString | LTFunction
  | LTUserData | LTThread | LTTable | LTChannel | LTObject

fun LValueType_iota :: "LValueType \<Rightarrow> nat" where
  "LValueType_iota LTNil = 0"
| "LValueType_iota LTBool = 1"
| "LValueType_iota LTNumber = 2"
| "LValueType_iota LTString = 3"
| "LValueType_iota LTFunction = 4"
| "LValueType_iota LTUserData = 5"
| "LValueType_iota LTThread = 6"
| "LValueType_iota LTTable = 7"
| "LValueType_iota LTChannel = 8"
| "LValueType_iota LTObject = 9"

definition lValueNames :: "string list" where
  "lValueNames = [''nil'', ''boolean'', ''number'', ''string'', ''function'',
                  ''userdata'', ''thread'', ''table'', ''channel'', ''object'']"

definition LValueType_String :: "LValueType \<Rightarrow> string" where
  "LValueType_String vt = lValueNames ! LValueType_iota vt"

definition value_tags :: "LValueType set" where
  "value_tags = {LTNil, LTBool, LTNumber, LTString, LTFunction,
                 LTUserData, LTThread, LTTable, LTChannel}"

subsection \<open>Values\<close>

text \<open>
  A Go pointer is \<^verbatim>\<open>nil\<close> or an address. \<^verbatim>\<open>LNumber\<close> is a double (section 4.3 of the
  specification); it is carried as its 64-bit IEEE pattern, so \<^verbatim>\<open>LNumber(0)\<close> is the
  word \<open>0\<close>. Of the operations on doubles only equality is modelled: the conversion \<^verbatim>\<open>int64(nm)\<close>, the
  helpers \<^verbatim>\<open>isInteger\<close>, \<^verbatim>\<open>parseNumber\<close> and \<^verbatim>\<open>defaultFormat\<close> and the library's
  \<^verbatim>\<open>fmt.Sprint\<close> are not in value.go and are parameters of the functions that call them.
\<close>

datatype ref = Null | Addr nat

type_synonym float64 = "64 word"
type_synonym int64 = "64 word"
type_synonym rune = "32 word"

text \<open>
  The nine concrete types with the method set of \<^verbatim>\<open>LValue\<close>. \<open>LNil\<close> is the package's
  one value of type \<^verbatim>\<open>*LNilType\<close>; functions, userdata, threads and tables are
  pointers to their structs, a channel is a reference to its queue.
\<close>

datatype LValue =
    LNil
  | LBool bool
  | LNumber float64
  | LString string
  | LFunctionP ref
  | LUserDataP ref
  | LStateP ref
  | LTableP ref
  | LChannel ref

definition LTrue :: LValue where "LTrue = LBool True"
definition LFalse :: LValue where "LFalse = LBool False"

text \<open>
  The comparisons \<^verbatim>\<open>v == LNil\<close> and \<^verbatim>\<open>v == LFalse\<close> are interface comparisons: equal
  dynamic types and equal values, which for these two operands is equality of the
  datatype.
\<close>

definition LVIsFalse :: "LValue \<Rightarrow> bool" where
  "LVIsFalse v = (v = LNil \<or> v = LFalse)"

definition LVAsBool :: "LValue \<Rightarrow> bool" where
  "LVAsBool v = (v \<noteq> LNil \<and> v \<noteq> LFalse)"

text \<open>
  \<^verbatim>\<open>parseNumber\<close> returns a pair \<^verbatim>\<open>(LNumber, error)\<close>; the error is \<^verbatim>\<open>nil\<close> (\<open>None\<close>)
  on success.
\<close>

definition LVAsNumber :: "(string \<Rightarrow> float64 \<times> 'e option) \<Rightarrow> LValue \<Rightarrow> float64" where
  "LVAsNumber parseNumber v =
     (case v of
        LNumber lv \<Rightarrow> lv
      | LString lv \<Rightarrow>
          (case parseNumber lv of
             (num, None) \<Rightarrow> num
           | (num, Some err) \<Rightarrow> 0)
      | _ \<Rightarrow> 0)"

subsection \<open>The methods of each concrete type\<close>

definition LNilType_Type :: LValueType where "LNilType_Type = LTNil"
definition LBool_Type :: "bool \<Rightarrow> LValueType" where "LBool_Type bl = LTBool"
definition LString_Type :: "string \<Rightarrow> LValueType" where "LString_Type st = LTString"
definition LNumber_Type :: "float64 \<Rightarrow> LValueType" where "LNumber_Type nm = LTNumber"
definition LTable_Type :: "ref \<Rightarrow> LValueType" where "LTable_Type tb = LTTable"
definition LFunction_Type :: "ref \<Rightarrow> LValueType" where "LFunction_Type fn = LTFunction"
definition LState_Type :: "ref \<Rightarrow> LValueType" where "LState_Type ls = LTThread"
definition LUserData_Type :: "ref \<Rightarrow> LValueType" where "LUserData_Type ud = LTUserData"
definition LChannel_Type :: "ref \<Rightarrow> LValueType" where "LChannel_Type ch = LTChannel"

text \<open>\<^verbatim>\<open>AssertFunction() (*LFunction, bool)\<close>: the pointer and the flag.\<close>

definition LNilType_AssertFunction :: "ref \<times> bool" where
  "LNilType_AssertFunction = (Null, False)"
definition LBool_AssertFunction :: "bool \<Rightarrow> ref \<times> bool" where
  "LBool_AssertFunction bl = (Null, False)"
definition LString_AssertFunction :: "string \<Rightarrow> ref \<times> bool" where
  "LString_AssertFunction st = (Null, False)"
definition LNumber_AssertFunction :: "float64 \<Rightarrow> ref \<times> bool" where
  "LNumber_AssertFunction nm = (Null, False)"
definition LTable_AssertFunction :: "ref \<Rightarrow> ref \<times> bool" where
  "LTable_AssertFunction tb = (Null, False)"
definition LFunction_AssertFunction :: "ref \<Rightarrow> ref \<times> bool" where
  "LFunction_AssertFunction fn = (fn, True)"
definition LState_AssertFunction :: "ref \<Rightarrow> ref \<times> bool" where
  "LState_AssertFunction ls = (Null, False)"
definition LUserData_AssertFunction :: "ref \<Rightarrow> ref \<times> bool" where
  "LUserData_AssertFunction ud = (Null, False)"
definition LChannel_AssertFunction :: "ref \<Rightarrow> ref \<times> bool" where
  "LChannel_AssertFunction ch = (Null, False)"

text \<open>
  \<^verbatim>\<open>Index(L *LState, key string) LValue\<close>: in each of the nine methods the body is a
  \<^verbatim>\<open>switch key\<close> whose only arm is \<^verbatim>\<open>default: return LNil\<close>. Neither the receiver nor
  \<^verbatim>\<open>L\<close> is dereferenced.
\<close>

definition LNilType_Index :: "ref \<Rightarrow> string \<Rightarrow> LValue" where
  "LNilType_Index L key = LNil"
definition LBool_Index :: "bool \<Rightarrow> ref \<Rightarrow> string \<Rightarrow> LValue" where
  "LBool_Index bl L key = LNil"
definition LString_Index :: "string \<Rightarrow> ref \<Rightarrow> string \<Rightarrow> LValue" where
  "LString_Index st L key = LNil"
definition LNumber_Index :: "float64 \<Rightarrow> ref \<Rightarrow> string \<Rightarrow> LValue" where
  "LNumber_Index nm L key = LNil"
definition LTable_Index :: "ref \<Rightarrow> ref \<Rightarrow> string \<Rightarrow> LValue" where
  "LTable_Index tb L key = LNil"
definition LFunction_Index :: "ref \<Rightarrow> ref \<Rightarrow> string \<Rightarrow> LValue" where
  "LFunction_Index fn L key = LNil"
definition LState_Index :: "ref \<Rightarrow> ref \<Rightarrow> string \<Rightarrow> LValue" where
  "LState_Index ls L key = LNil"
definition LUserData_Index :: "ref \<Rightarrow> ref \<Rightarrow> string \<Rightarrow> LValue" where
  "LUserData_Index ud L key = LNil"
definition LChannel_Index :: "ref \<Rightarrow> ref \<Rightarrow> string \<Rightarrow> LValue" where
  "LChannel_Index ch L key = LNil"

subsection \<open>Calls through the interface\<close>

text \<open>A method call on an \<^verbatim>\<open>LValue\<close> runs the method of the value's dynamic type.\<close>

fun Type :: "LValue \<Rightarrow> LValueType" where
  "Type LNil = LNilType_Type"
| "Type (LBool bl) = LBool_Type bl"
| "Type (LNumber nm) = LNumber_Type nm"
| "Type (LString st) = LString_Type st"
| "Type (LFunctionP fn) = LFunction_Type fn"
| "Type (LUserDataP ud) = LUserData_Type ud"
| "Type (LStateP ls) = LState_Type ls"
| "Type (LTableP tb) = LTable_Type tb"
| "Type (LChannel ch) = LChannel_Type ch"

fun AssertFunction :: "LValue \<Rightarrow> ref \<times> bool" where
  "AssertFunction LNil = LNilType_AssertFunction"
| "AssertFunction (LBool bl) = LBool_AssertFunction bl"
| "AssertFunction (LNumber nm) = LNumber_AssertFunction nm"
| "AssertFunction (LString st) = LString_AssertFunction st"
| "AssertFunction (LFunctionP fn) = LFunction_AssertFunction fn"
| "AssertFunction (LUserDataP ud) = LUserData_AssertFunction ud"
| "AssertFunction (LStateP ls) = LState_AssertFunction ls"
| "AssertFunction (LTableP tb) = LTable_AssertFunction tb"
| "AssertFunction (LChannel ch) = LChannel_AssertFunction ch"

fun Index :: "LValue \<Rightarrow> ref \<Rightarrow> string \<Rightarrow> LValue" where
  "Index LNil L key = LNilType_Index L key"
| "Index (LBool bl) L key = LBool_Index bl L key"
| "Index (LNumber nm) L key = LNumber_Index nm L key"
| "Index (LString st) L key = LString_Index st L key"
| "Index (LFunctionP fn) L key = LFunction_Index fn L key"
| "Index (LUserDataP ud) L key = LUserData_Index ud L key"
| "Index (LStateP ls) L key = LState_Index ls L key"
| "Index (LTableP tb) L key = LTable_Index tb L key"
| "Index (LChannel ch) L key = LChannel_Index ch L key"

subsection \<open>Formatting\<close>

text \<open>
  The values handed to \<^verbatim>\<open>fmt.Sprint\<close> and \<^verbatim>\<open>defaultFormat\<close> as \<^verbatim>\<open>interface{}\<close>: an
  \<^verbatim>\<open>LNumber\<close>, a \<^verbatim>\<open>string\<close>, an \<^verbatim>\<open>int64\<close> or a \<^verbatim>\<open>float64\<close>.
\<close>

datatype goarg = GoLNumber float64 | GoString string | GoInt64 int64 | GoFloat64 float64

text \<open>A rune literal such as \<^verbatim>\<open>'d'\<close> is the code point of the character.\<close>

definition rune :: "char \<Rightarrow> rune" where
  "rune ch = of_char ch"

text \<open>
  \<^verbatim>\<open>LString.Format(f fmt.State, c rune)\<close>. \<^verbatim>\<open>defaultFormat\<close> writes to \<^verbatim>\<open>f\<close>; the state
  is passed through and returned.
\<close>

definition LString_Format ::
  "(string \<Rightarrow> float64 \<times> 'e option) \<Rightarrow> (goarg \<Rightarrow> 'f \<Rightarrow> rune \<Rightarrow> 'f) \<Rightarrow> string \<Rightarrow> 'f \<Rightarrow> rune \<Rightarrow> 'f"
where
  "LString_Format parseNumber defaultFormat st f c =
     (if c = rune CHR ''d'' \<or> c = rune CHR ''i'' then
        (case parseNumber st of
           (nm, Some err) \<Rightarrow> defaultFormat (GoLNumber nm) f (rune CHR ''d'')
         | (nm, None) \<Rightarrow> defaultFormat (GoString st) f (rune CHR ''s''))
      else defaultFormat (GoString st) f c)"

text \<open>
  \<^verbatim>\<open>LNumber.String()\<close>: \<^verbatim>\<open>fmt.Sprint(int64(nm))\<close> when \<^verbatim>\<open>isInteger(nm)\<close>, else
  \<^verbatim>\<open>fmt.Sprint(float64(nm))\<close>.
\<close>

definition LNumber_String ::
  "(float64 \<Rightarrow> bool) \<Rightarrow> (float64 \<Rightarrow> int64) \<Rightarrow> (goarg \<Rightarrow> string) \<Rightarrow> float64 \<Rightarrow> string"
where
  "LNumber_String isInteger toInt64 Sprint nm =
     (if isInteger nm then Sprint (GoInt64 (toInt64 nm)) else Sprint (GoFloat64 nm))"

text \<open>\<^verbatim>\<open>LNumber.Format(f fmt.State, c rune)\<close>, the arms of the switch in their order.\<close>

definition LNumber_Format ::
  "(float64 \<Rightarrow> bool) \<Rightarrow> (float64 \<Rightarrow> int64) \<Rightarrow> (goarg \<Rightarrow> string) \<Rightarrow> (goarg \<Rightarrow> 'f \<Rightarrow> rune \<Rightarrow> 'f)
     \<Rightarrow> float64 \<Rightarrow> 'f \<Rightarrow> rune \<Rightarrow> 'f"
where
  "LNumber_Format isInteger toInt64 Sprint defaultFormat nm f c =
     (if c \<in> {rune CHR ''q'', rune CHR ''s''} then
        defaultFormat (GoString (LNumber_String isInteger toInt64 Sprint nm)) f c
      else if c \<in> {rune CHR ''b'', rune CHR ''c'', rune CHR ''d'', rune CHR ''o'',
                    rune CHR ''x'', rune CHR ''X'', rune CHR ''U''} then
        defaultFormat (GoInt64 (toInt64 nm)) f c
      else if c \<in> {rune CHR ''e'', rune CHR ''E'', rune CHR ''f'', rune CHR ''F'',
                    rune CHR ''g'', rune CHR ''G''} then
        defaultFormat (GoFloat64 nm) f c
      else if c = rune CHR ''i'' then
        defaultFormat (GoInt64 (toInt64 nm)) f (rune CHR ''d'')
      else if isInteger nm then defaultFormat (GoInt64 (toInt64 nm)) f c
      else defaultFormat (GoFloat64 nm) f c)"

subsection \<open>Tables in memory\<close>

text \<open>The struct \<^verbatim>\<open>LTable\<close>; memory maps the address of a table to its fields.\<close>

record LTable =
  Metatable :: LValue
  array :: "LValue list"
  dict :: "LValue \<rightharpoonup> LValue"
  strdict :: "string \<rightharpoonup> LValue"
  keys :: "LValue list"
  k2i :: "LValue \<rightharpoonup> int"

type_synonym memory = "nat \<rightharpoonup> LTable"

text \<open>
  Modelled from the spec: the table read by a string key of section 4.2 (the table's
  get is not in value.go): a string key is never an array index, so the string map is
  looked up first, then the general hash part; a missing key reads as Nil.
\<close>

definition raw_get_str :: "LTable \<Rightarrow> string \<Rightarrow> LValue" where
  "raw_get_str tb key =
     (case strdict tb key of
        Some v \<Rightarrow> v
      | None \<Rightarrow> (case dict tb (LString key) of Some v \<Rightarrow> v | None \<Rightarrow> LNil))"

text \<open>
  Modelled from the spec: the name of the metatable's index-fallback entry; the
  specification leaves it unnamed, and the guest language calls it \<^verbatim>\<open>__index\<close>.
\<close>

definition index_fallback_entry :: string where
  "index_fallback_entry = ''__index''"

text \<open>
  Modelled from the spec: the index-fallback entry of a metatable, Nil when the value is
  not a table in memory or holds no such entry.
\<close>

definition fallback_of :: "memory \<Rightarrow> LValue \<Rightarrow> LValue" where
  "fallback_of m mt =
     (case mt of
        LTableP (Addr a) \<Rightarrow>
          (case m a of Some mtb \<Rightarrow> raw_get_str mtb index_fallback_entry | None \<Rightarrow> LNil)
      | _ \<Rightarrow> LNil)"

text \<open>
  Modelled from the spec: the outcome of the metatable-driven lookup of section 4.2: a
  value, the call of a callable fallback entry on (table, key), whose result the
  interpreter supplies, or the chain being deeper than the cap.
\<close>

datatype lookup = Found LValue | Invoke ref LValue string | TooDeep

text \<open>
  Modelled from the spec: the metatable-driven lookup of section 4.2 (not in value.go),
  with the chain depth capped by the first argument. A key present in the table is
  returned; on a missing key the metatable's index-fallback entry is invoked if it is
  callable, searched in turn if it is another table, and the result is Nil otherwise.
\<close>

fun meta_get :: "nat \<Rightarrow> memory \<Rightarrow> LValue \<Rightarrow> string \<Rightarrow> lookup" where
  "meta_get 0 m v key = TooDeep"
| "meta_get (Suc n) m (LTableP (Addr a)) key =
     (case m a of
        None \<Rightarrow> Found LNil
      | Some tb \<Rightarrow>
          (if raw_get_str tb key \<noteq> LNil then Found (raw_get_str tb key)
           else
             (case fallback_of m (Metatable tb) of
                LFunctionP fn \<Rightarrow> Invoke fn (LTableP (Addr a)) key
              | LTableP t \<Rightarrow> meta_get n m (LTableP t) key
              | _ \<Rightarrow> Found LNil)))"
| "meta_get (Suc n) m v key = Found LNil"

text \<open>
  Three tables: table 0 is empty and carries table 1 as its metatable; the
  index-fallback entry of table 1 is table 2; table 2 maps \<^verbatim>\<open>"x"\<close> to true.
\<close>

definition empty_table :: LTable where
  "empty_table = \<lparr>Metatable = LNil, array = [], dict = Map.empty, strdict = Map.empty,
                   keys = [], k2i = Map.empty\<rparr>"

definition chained_tables :: memory where
  "chained_tables =
     [0 \<mapsto> empty_table\<lparr>Metatable := LTableP (Addr 1)\<rparr>,
      1 \<mapsto> empty_table\<lparr>strdict := [index_fallback_entry \<mapsto> LTableP (Addr 2)],
                         keys := [LString index_fallback_entry],
                         k2i := [LString index_fallback_entry \<mapsto> 0]\<rparr>,
      2 \<mapsto> empty_table\<lparr>strdict := [''x'' \<mapsto> LTrue],
                         keys := [LString ''x''],
                         k2i := [LString ''x'' \<mapsto> 0]\<rparr>]"

text \<open>
  Stand-ins for the absent helpers, used where a theorem is run on a concrete input: a
  parser that accepts only \<^verbatim>\<open>"10"\<close> (as the double 10.0, with the error
  \<^verbatim>\<open>"syntax"\<close> and the number 0 otherwise), and a \<^verbatim>\<open>defaultFormat\<close> that appends its
  argument and verb to the output, a log of the calls made.
\<close>

definition parse_ten :: "string \<Rightarrow> float64 \<times> string option" where
  "parse_ten s = (if s = ''10'' then (0x4024000000000000, None) else (0, Some ''syntax''))"

definition log_format :: "goarg \<Rightarrow> (goarg \<times> rune) list \<Rightarrow> rune \<Rightarrow> (goarg \<times> rune) list" where
  "log_format a f c = f @ [(a, c)]"

definition tag_sprint :: "goarg \<Rightarrow> string" where
  "tag_sprint a = (case a of GoInt64 i \<Rightarrow> ''int64'' | GoFloat64 x \<Rightarrow> ''float64''
                           | GoString s \<Rightarrow> s | GoLNumber n \<Rightarrow> ''LNumber'')"

text \<open>
  Stand-ins for \<^verbatim>\<open>isInteger\<close> and \<^verbatim>\<open>int64(nm)\<close> on sample doubles: 10.0
  (\<^verbatim>\<open>0x4024000000000000\<close>) and 0.0 are whole, 1.5 (\<^verbatim>\<open>0x3FF8000000000000\<close>) is not and
  truncates to 1.
\<close>

definition whole_sample :: "float64 \<Rightarrow> bool" where
  "whole_sample nm = (nm = 0x4024000000000000 \<or> nm = 0)"

definition trunc_sample :: "float64 \<Rightarrow> int64" where
  "trunc_sample nm =
     (if nm = 0x4024000000000000 then 10 else if nm = 0x3FF8000000000000 then 1 else 0)"


subsection \<open>Equality of numbers\<close>

unbundle bit_operations_syntax

text \<open>
  The language's \<^verbatim>\<open>==\<close> on \<^verbatim>\<open>float64\<close>, read on the 64-bit pattern (sign, 11 exponent
  bits, 52 fraction bits): a NaN has every exponent bit set and a fraction that is not
  zero, and is equal to nothing, itself included; the two zeros are equal; any other
  two doubles are equal when their patterns are.
\<close>

definition is_nan :: "float64 \<Rightarrow> bool" where
  "is_nan x = (x AND 0x7FF0000000000000 = 0x7FF0000000000000
               \<and> x AND 0x000FFFFFFFFFFFFF \<noteq> 0)"

definition go_feq :: "float64 \<Rightarrow> float64 \<Rightarrow> bool" where
  "go_feq x y = (\<not> is_nan x \<and> \<not> is_nan y
                 \<and> (x = y \<or> (x AND 0x7FFFFFFFFFFFFFFF = 0 \<and> y AND 0x7FFFFFFFFFFFFFFF = 0)))"









lemmas Type_defs =
  LNilType_Type_def LBool_Type_def LString_Type_def LNumber_Type_def LTable_Type_def
  LFunction_Type_def LState_Type_def LUserData_Type_def LChannel_Type_def

lemmas AssertFunction_defs =
  LNilType_AssertFunction_def LBool_AssertFunction_def LString_AssertFunction_def
  LNumber_AssertFunction_def LTable_AssertFunction_def LFunction_AssertFunction_def
  LState_AssertFunction_def LUserData_AssertFunction_def LChannel_AssertFunction_def

lemmas Index_defs =
  LNilType_Index_def LBool_Index_def LString_Index_def LNumber_Index_def LTable_Index_def
  LFunction_Index_def LState_Index_def LUserData_Index_def LChannel_Index_def

section \<open>Truthiness\<close>

text \<open>
  C1. A value is false-like exactly when it is \<open>LNil\<close> or \<open>LFalse\<close>; every other value
  is truthy, and so are the number 0 and the empty string.
\<close>

theorem C1_falsiness:
  "(LVIsFalse v \<longleftrightarrow> v = LNil \<or> v = LBool False)
   \<and> (v \<noteq> LNil \<and> v \<noteq> LBool False \<longrightarrow> LVAsBool v \<and> \<not> LVIsFalse v)
   \<and> LVAsBool (LNumber 0) \<and> \<not> LVIsFalse (LNumber 0)
   \<and> LVAsBool (LString []) \<and> \<not> LVIsFalse (LString [])"
  by (simp add: LVIsFalse_def LVAsBool_def LFalse_def)

theorem C1_falsiness_witness:
  "LTrue \<noteq> LNil \<and> LTrue \<noteq> LBool False \<and> LVAsBool LTrue \<and> \<not> LVIsFalse LTrue
   \<and> LVIsFalse LNil \<and> LVIsFalse (LBool False)"
  using C1_falsiness [of LTrue] C1_falsiness [of LNil] C1_falsiness [of "LBool False"]
  by (simp add: LTrue_def)

text \<open>
  C10. \<open>LVAsBool\<close> is the negation of \<open>LVIsFalse\<close> on every value: the two never agree.
\<close>

theorem C10_asBool_negates_isFalse:
  "LVAsBool v = (\<not> LVIsFalse v)"
  by (simp add: LVIsFalse_def LVAsBool_def)

section \<open>Narrowing to a function\<close>

text \<open>
  C3. \<open>AssertFunction\<close> answers with the function pointer and \<open>True\<close> exactly for a value
  of the Function variant; for each of the eight other variants it answers with the
  nil pointer and \<open>False\<close>.
\<close>

theorem C3_assertFunction:
  "(AssertFunction v = (fn, True) \<longleftrightarrow> v = LFunctionP fn)
   \<and> (snd (AssertFunction v) \<longleftrightarrow> Type v = LTFunction)
   \<and> (AssertFunction v = (Null, False) \<longleftrightarrow>
        Type v \<in> {LTNil, LTBool, LTNumber, LTString, LTUserData, LTThread, LTTable, LTChannel})"
  by (cases v) (simp_all add: AssertFunction_defs Type_defs)

section \<open>Attribute lookup\<close>

text \<open>
  C2, as the code has it. \<open>Index\<close> returns \<open>LNil\<close> for every value of every one of the
  nine kinds and every key: tables, userdata and threads included, whatever metatable
  they carry. No metatable is read.
\<close>

theorem C2_index_always_nil:
  "Index v L key = LNil"
  by (cases v) (simp_all add: Index_defs)

text \<open>
  C2 as the specification words it fails: table 0 of \<open>chained_tables\<close> carries a
  metatable whose index-fallback entry is a table holding \<^verbatim>\<open>"x"\<close>. The metatable-driven
  lookup of section 4.2 finds true there; \<open>Index\<close> on the same table and key is Nil.
\<close>

theorem C2_index_ignores_metatable:
  "meta_get (Suc (Suc 0)) chained_tables (LTableP (Addr 0)) ''x'' = Found LTrue
   \<and> Index (LTableP (Addr 0)) Null ''x'' = LNil
   \<and> LTrue \<noteq> LNil"
  by (simp add: Index_defs chained_tables_def empty_table_def fallback_of_def
      raw_get_str_def index_fallback_entry_def LTrue_def)

section \<open>Coercion to a number\<close>

text \<open>
  C4. \<open>LVAsNumber\<close> returns a Number unchanged, returns the parsed number for a String
  that \<^verbatim>\<open>parseNumber\<close> accepts, and returns exactly 0 otherwise: for a String the parse
  rejects and for every value that is neither a Number nor a String.
\<close>

theorem C4_asNumber:
  "LVAsNumber parseNumber (LNumber n) = n
   \<and> (snd (parseNumber s) = None \<longrightarrow> LVAsNumber parseNumber (LString s) = fst (parseNumber s))
   \<and> (snd (parseNumber s) \<noteq> None \<longrightarrow> LVAsNumber parseNumber (LString s) = 0)
   \<and> (Type v \<notin> {LTNumber, LTString} \<longrightarrow> LVAsNumber parseNumber v = 0)"
  by (cases v; cases "parseNumber s")
     (auto simp add: LVAsNumber_def Type_defs split: option.splits)

theorem C4_asNumber_witness:
  "snd (parse_ten ''10'') = None
   \<and> LVAsNumber parse_ten (LString ''10'') = 0x4024000000000000
   \<and> snd (parse_ten ''ten'') \<noteq> None
   \<and> LVAsNumber parse_ten (LString ''ten'') = 0
   \<and> Type (LTableP (Addr 0)) \<notin> {LTNumber, LTString}
   \<and> LVAsNumber parse_ten (LTableP (Addr 0)) = 0
   \<and> LVAsNumber parse_ten (LNumber 0x3FF8000000000000) = 0x3FF8000000000000"
  using C4_asNumber [of parse_ten "0x3FF8000000000000" "''10''" "LTableP (Addr 0)"]
    C4_asNumber [of parse_ten 0 "''ten''" LNil]
  by (simp add: parse_ten_def Type_defs)

section \<open>Rendering a number\<close>

text \<open>
  C5. The canonical rendering \<open>LNumber_String\<close> of a number is the rendering of its
  integral form \<^verbatim>\<open>int64(nm)\<close> when the integer predicate holds, and of its floating form
  otherwise; it is the integral rendering under every renderer if and only if the
  integer predicate holds.
\<close>

theorem C5_string_integer_style:
  "(isInteger nm \<longrightarrow>
      LNumber_String isInteger toInt64 Sprint nm = Sprint (GoInt64 (toInt64 nm)))
   \<and> (\<not> isInteger nm \<longrightarrow>
      LNumber_String isInteger toInt64 Sprint nm = Sprint (GoFloat64 nm))
   \<and> ((\<forall>S. LNumber_String isInteger toInt64 S nm = S (GoInt64 (toInt64 nm)))
        \<longleftrightarrow> isInteger nm)"
proof -
  have only_when: "isInteger nm" if all: "\<forall>S. LNumber_String isInteger toInt64 S nm = S (GoInt64 (toInt64 nm))"
  proof (rule ccontr)
    assume "\<not> isInteger nm"
    then have "LNumber_String isInteger toInt64 tag_sprint nm = ''float64''"
      by (simp add: LNumber_String_def tag_sprint_def)
    moreover from all have "LNumber_String isInteger toInt64 tag_sprint nm = ''int64''"
      by (simp add: tag_sprint_def)
    ultimately show False by simp
  qed
  have when_int: "isInteger nm \<Longrightarrow>
      LNumber_String isInteger toInt64 S nm = S (GoInt64 (toInt64 nm))" for S
    by (simp add: LNumber_String_def)
  have when_not: "\<not> isInteger nm \<Longrightarrow>
      LNumber_String isInteger toInt64 Sprint nm = Sprint (GoFloat64 nm)"
    by (simp add: LNumber_String_def)
  from only_when when_int when_not show ?thesis by blast
qed

theorem C5_string_integer_style_witness:
  "whole_sample 0x4024000000000000
   \<and> LNumber_String whole_sample trunc_sample tag_sprint 0x4024000000000000 = ''int64''
   \<and> \<not> whole_sample 0x3FF8000000000000
   \<and> LNumber_String whole_sample trunc_sample tag_sprint 0x3FF8000000000000 = ''float64''"
  using C5_string_integer_style [of whole_sample "0x4024000000000000" trunc_sample tag_sprint]
    C5_string_integer_style [of whole_sample "0x3FF8000000000000" trunc_sample tag_sprint]
  by (simp add: whole_sample_def tag_sprint_def)

text \<open>
  C8. \<open>LNumber_Format\<close> by verb: \<^verbatim>\<open>d\<close>, \<^verbatim>\<open>b\<close>, \<^verbatim>\<open>c\<close>, \<^verbatim>\<open>o\<close>, \<^verbatim>\<open>x\<close>, \<^verbatim>\<open>X\<close> and \<^verbatim>\<open>U\<close> format the
  integer-truncated form under the verb itself and \<^verbatim>\<open>i\<close> formats it under \<^verbatim>\<open>d\<close>; \<^verbatim>\<open>e\<close>, \<^verbatim>\<open>E\<close>,
  \<^verbatim>\<open>f\<close>, \<^verbatim>\<open>F\<close>, \<^verbatim>\<open>g\<close> and \<^verbatim>\<open>G\<close> format the floating form; \<^verbatim>\<open>q\<close> and \<^verbatim>\<open>s\<close> format the canonical
  text; any other verb formats the integral form when the integer predicate holds and
  the floating form otherwise.
\<close>

theorem C8_number_format_dispatch:
  "(c \<in> {rune CHR ''d'', rune CHR ''b'', rune CHR ''c'', rune CHR ''o'',
          rune CHR ''x'', rune CHR ''X'', rune CHR ''U''} \<longrightarrow>
      LNumber_Format isInteger toInt64 Sprint defaultFormat nm f c
        = defaultFormat (GoInt64 (toInt64 nm)) f c)
   \<and> (c = rune CHR ''i'' \<longrightarrow>
      LNumber_Format isInteger toInt64 Sprint defaultFormat nm f c
        = defaultFormat (GoInt64 (toInt64 nm)) f (rune CHR ''d''))
   \<and> (c \<in> {rune CHR ''e'', rune CHR ''E'', rune CHR ''f'', rune CHR ''F'',
            rune CHR ''g'', rune CHR ''G''} \<longrightarrow>
      LNumber_Format isInteger toInt64 Sprint defaultFormat nm f c
        = defaultFormat (GoFloat64 nm) f c)
   \<and> (c \<in> {rune CHR ''q'', rune CHR ''s''} \<longrightarrow>
      LNumber_Format isInteger toInt64 Sprint defaultFormat nm f c
        = defaultFormat (GoString (LNumber_String isInteger toInt64 Sprint nm)) f c)
   \<and> (c \<notin> {rune CHR ''d'', rune CHR ''i'', rune CHR ''b'', rune CHR ''c'', rune CHR ''o'',
            rune CHR ''x'', rune CHR ''X'', rune CHR ''U'',
            rune CHR ''e'', rune CHR ''E'', rune CHR ''f'', rune CHR ''F'',
            rune CHR ''g'', rune CHR ''G'', rune CHR ''q'', rune CHR ''s''} \<longrightarrow>
      LNumber_Format isInteger toInt64 Sprint defaultFormat nm f c
        = (if isInteger nm then defaultFormat (GoInt64 (toInt64 nm)) f c
           else defaultFormat (GoFloat64 nm) f c))"
  unfolding LNumber_Format_def by (auto simp add: rune_def)

theorem C8_number_format_dispatch_witness:
  "LNumber_Format whole_sample trunc_sample tag_sprint log_format 0x3FF8000000000000 [] (rune CHR ''x'')
     = [(GoInt64 1, rune CHR ''x'')]
   \<and> LNumber_Format whole_sample trunc_sample tag_sprint log_format 0x3FF8000000000000 [] (rune CHR ''i'')
     = [(GoInt64 1, rune CHR ''d'')]
   \<and> LNumber_Format whole_sample trunc_sample tag_sprint log_format 0x3FF8000000000000 [] (rune CHR ''g'')
     = [(GoFloat64 0x3FF8000000000000, rune CHR ''g'')]
   \<and> LNumber_Format whole_sample trunc_sample tag_sprint log_format 0x4024000000000000 [] (rune CHR ''s'')
     = [(GoString ''int64'', rune CHR ''s'')]
   \<and> LNumber_Format whole_sample trunc_sample tag_sprint log_format 0x4024000000000000 [] (rune CHR ''v'')
     = [(GoInt64 10, rune CHR ''v'')]
   \<and> LNumber_Format whole_sample trunc_sample tag_sprint log_format 0x3FF8000000000000 [] (rune CHR ''v'')
     = [(GoFloat64 0x3FF8000000000000, rune CHR ''v'')]"
  using
    C8_number_format_dispatch [of "rune CHR ''x''" whole_sample trunc_sample tag_sprint log_format "0x3FF8000000000000" "[]"]
    C8_number_format_dispatch [of "rune CHR ''i''" whole_sample trunc_sample tag_sprint log_format "0x3FF8000000000000" "[]"]
    C8_number_format_dispatch [of "rune CHR ''g''" whole_sample trunc_sample tag_sprint log_format "0x3FF8000000000000" "[]"]
    C8_number_format_dispatch [of "rune CHR ''s''" whole_sample trunc_sample tag_sprint log_format "0x4024000000000000" "[]"]
    C8_number_format_dispatch [of "rune CHR ''v''" whole_sample trunc_sample tag_sprint log_format "0x4024000000000000" "[]"]
    C8_number_format_dispatch [of "rune CHR ''v''" whole_sample trunc_sample tag_sprint log_format "0x3FF8000000000000" "[]"]
  by (simp add: rune_def whole_sample_def trunc_sample_def tag_sprint_def log_format_def
      LNumber_String_def)

section \<open>Formatting a string\<close>

text \<open>
  C6, the code on the verbs \<^verbatim>\<open>d\<close> and \<^verbatim>\<open>i\<close>: the test on the parse error is the wrong way
  round. When the parse of the string succeeds the string is formatted as plain text
  under \<^verbatim>\<open>s\<close>; when the parse fails the number returned beside the error is formatted
  under \<^verbatim>\<open>d\<close>.
\<close>

theorem C6_string_format_branches:
  "c \<in> {rune CHR ''d'', rune CHR ''i''} \<Longrightarrow>
   (snd (parseNumber st) = None \<longrightarrow>
      LString_Format parseNumber defaultFormat st f c
        = defaultFormat (GoString st) f (rune CHR ''s''))
   \<and> (snd (parseNumber st) \<noteq> None \<longrightarrow>
      LString_Format parseNumber defaultFormat st f c
        = defaultFormat (GoLNumber (fst (parseNumber st))) f (rune CHR ''d''))"
  by (cases "parseNumber st") (auto simp add: LString_Format_def split: option.splits)

text \<open>
  On \<^verbatim>\<open>"abc"\<close>, which does not parse, the verb \<^verbatim>\<open>d\<close> formats the number 0 and not the
  text; on \<^verbatim>\<open>"10"\<close>, which parses, it formats the text and not the number.
\<close>

theorem C6_string_format_failing_input:
  "rune CHR ''d'' \<in> {rune CHR ''d'', rune CHR ''i''}
   \<and> snd (parse_ten ''abc'') \<noteq> None
   \<and> LString_Format parse_ten log_format ''abc'' [] (rune CHR ''d'')
       = [(GoLNumber 0, rune CHR ''d'')]
   \<and> snd (parse_ten ''10'') = None
   \<and> LString_Format parse_ten log_format ''10'' [] (rune CHR ''d'')
       = [(GoString ''10'', rune CHR ''s'')]"
  using C6_string_format_branches [of "rune CHR ''d''" parse_ten "''abc''" log_format "[]"]
    C6_string_format_branches [of "rune CHR ''d''" parse_ten "''10''" log_format "[]"]
  by (simp add: parse_ten_def log_format_def)

section \<open>The tag set\<close>

text \<open>
  C7, as the code has it. The tag type has ten tags: the nine tags of the value kinds and
  \<open>LTObject\<close>. \<open>Type\<close> returns one of the nine for every value of the nine kinds, reaches
  each of the nine, and never returns \<open>LTObject\<close>.
\<close>

theorem C7_nine_kinds_ten_tags:
  "(UNIV :: LValueType set) = insert LTObject value_tags
   \<and> LTObject \<notin> value_tags
   \<and> card value_tags = 9
   \<and> Type v \<in> value_tags
   \<and> range Type = value_tags"
proof -
  have u: "(UNIV :: LValueType set) = insert LTObject value_tags"
    using LValueType.exhaust by (auto simp add: value_tags_def)
  have n: "LTObject \<notin> value_tags" by (simp add: value_tags_def)
  have c: "card value_tags = 9" by (simp add: value_tags_def)
  have t: "Type w \<in> value_tags" for w
    by (cases w) (simp_all add: Type_defs value_tags_def)
  have "Type LNil = LTNil" "Type (LBool True) = LTBool" "Type (LNumber 0) = LTNumber"
    "Type (LString []) = LTString" "Type (LFunctionP Null) = LTFunction"
    "Type (LUserDataP Null) = LTUserData" "Type (LStateP Null) = LTThread"
    "Type (LTableP Null) = LTTable" "Type (LChannel Null) = LTChannel"
    by (simp_all add: Type_defs)
  then have "value_tags \<subseteq> range Type"
    unfolding value_tags_def by (metis insert_subset empty_subsetI rangeI)
  with t have r: "range Type = value_tags" by auto
  from u n c t r show ?thesis by simp
qed

text \<open>
  C7 as the specification words it fails: \<open>LTObject\<close>, with \<^verbatim>\<open>iota\<close> value 9 and the name
  \<^verbatim>\<open>"object"\<close>, is a tenth tag of the tag set.
\<close>

theorem C7_tenth_tag:
  "LTObject \<notin> value_tags \<and> LValueType_iota LTObject = 9
   \<and> LValueType_String LTObject = ''object''"
  by (simp add: value_tags_def LValueType_String_def lValueNames_def)

section \<open>Rendering and parsing back\<close>







text \<open>
  C9 as the specification words it fails at NaN, whatever the helpers are: no number is
  equal to a NaN.
\<close>

lemma nan_round_trip:
  "is_nan n \<Longrightarrow> \<not> go_feq (fst (parseNumber (LNumber_String isInteger toInt64 Sprint n))) n"
  by (simp add: go_feq_def)


end
